theory Spec2Isabelle
  imports Main "HOL-Library.Word" "HOL-Library.Log_Nat" "HOL-Library.Sublist"
begin

section \<open>JavaScript values used by the expense form\<close>

subsection \<open>Strings\<close>

text \<open>
  A JavaScript string is a sequence of 16-bit code units. \<open>js\<close> writes an ASCII literal
  of the source as such a sequence.
\<close>

type_synonym code_unit = "16 word"
type_synonym jsstring = "code_unit list"

definition js :: "string \<Rightarrow> jsstring" where
  "js s = map of_char s"

text \<open>
  The white space and line terminator code units of ECMAScript, the ones that
  \<^verbatim>\<open>String.prototype.trim\<close> and \<^verbatim>\<open>parseFloat\<close> strip: TAB, LF, VT, FF, CR, SP, NBSP,
  the space separators U+1680, U+2000 to U+200A, U+202F, U+205F, U+3000, the line and
  paragraph separators U+2028 and U+2029, and the byte order mark U+FEFF.
\<close>

definition is_white_space :: "code_unit \<Rightarrow> bool" where
  "is_white_space c \<longleftrightarrow>
     c = 0x0009 \<or> c = 0x000A \<or> c = 0x000B \<or> c = 0x000C \<or> c = 0x000D \<or>
     c = 0x0020 \<or> c = 0x00A0 \<or> c = 0x1680 \<or> (0x2000 \<le> c \<and> c \<le> 0x200A) \<or>
     c = 0x2028 \<or> c = 0x2029 \<or> c = 0x202F \<or> c = 0x205F \<or> c = 0x3000 \<or> c = 0xFEFF"

definition trim_start :: "jsstring \<Rightarrow> jsstring" where
  "trim_start s = dropWhile is_white_space s"

definition trim :: "jsstring \<Rightarrow> jsstring" where
  "trim s = rev (dropWhile is_white_space (rev (dropWhile is_white_space s)))"

subsection \<open>Numbers\<close>

text \<open>
  A JavaScript number is an IEEE 754 binary64 value. The finite non-zero doubles and
  \<open>+0\<close> are \<open>Num q\<close> for the rational \<open>q\<close> they denote; \<open>-0\<close>, the two infinities
  and NaN are values of their own.
\<close>

datatype number = NaN | PosInfinity | NegInfinity | NegZero | Num rat

definition isNaN :: "number \<Rightarrow> bool" where
  "isNaN x \<longleftrightarrow> x = NaN"

text \<open>The comparison \<^verbatim>\<open>x <= 0\<close>: false on NaN, true on both zeros.\<close>

fun le_zero :: "number \<Rightarrow> bool" where
  "le_zero NaN = False"
| "le_zero PosInfinity = False"
| "le_zero NegInfinity = True"
| "le_zero NegZero = True"
| "le_zero (Num q) = (q \<le> 0)"

fun negate :: "number \<Rightarrow> number" where
  "negate NaN = NaN"
| "negate PosInfinity = NegInfinity"
| "negate NegInfinity = PosInfinity"
| "negate NegZero = Num 0"
| "negate (Num q) = (if q = 0 then NegZero else Num (- q))"

text \<open>
  Rounding of the positive fraction \<open>a / b\<close> to the nearest double, ties to even.
  \<open>ilog2 a b\<close> is the binary exponent \<open>\<lfloor>log\<^sub>2 (a / b)\<rfloor>\<close>, found from the bit lengths of
  \<open>a\<close> and \<open>b\<close>; below \<open>2 powi (- 1022)\<close> the doubles are subnormal and keep the spacing
  \<open>2 powi (- 1074)\<close>; a result of \<open>2 ^ 1024\<close> or more is \<open>Infinity\<close>. (For a literal of
  more than 20 significant digits ECMAScript lets an engine round a truncated value
  instead; the sign and the zero test of the result are the same.)
\<close>

definition ilog2 :: "int \<Rightarrow> int \<Rightarrow> int" where
  "ilog2 a b = (let k = bitlen a - bitlen b
                in if 2 ^ nat k * b \<le> 2 ^ nat (- k) * a then k else k - 1)"

definition round_ties_even :: "int \<Rightarrow> int \<Rightarrow> int" where
  "round_ties_even p q =
     (let f = p div q; r = p mod q
      in if 2 * r < q then f else if q < 2 * r then f + 1
         else if even f then f else f + 1)"

definition to_double :: "int \<Rightarrow> int \<Rightarrow> number" where
  "to_double a b =
     (if a = 0 then Num 0
      else let e = max (ilog2 a b) (- 1022);
               n = round_ties_even (a * 2 ^ nat (52 - e)) (b * 2 ^ nat (e - 52))
           in if 2 ^ 1024 * 2 ^ nat (52 - e) \<le> n * 2 ^ nat (e - 52) then PosInfinity
              else Num (of_int n * 2 powi (e - 52)))"

subsection \<open>parseFloat\<close>

text \<open>
  \<^verbatim>\<open>parseFloat\<close> strips leading white space and reads the longest prefix of the rest
  that is a \<^verbatim>\<open>StrDecimalLiteral\<close>: an optional sign, then \<^verbatim>\<open>Infinity\<close> or decimal digits
  with an optional fraction and an optional exponent. Whatever follows that prefix is
  ignored; with no such prefix the result is NaN. An exponent indicator counts only
  when digits follow it.
\<close>

definition is_digit :: "code_unit \<Rightarrow> bool" where
  "is_digit c \<longleftrightarrow> 0x30 \<le> c \<and> c \<le> 0x39"

definition digit_value :: "code_unit \<Rightarrow> int" where
  "digit_value c = uint c - 0x30"

definition digits_value :: "jsstring \<Rightarrow> int" where
  "digits_value ds = foldl (\<lambda>n c. 10 * n + digit_value c) 0 ds"

definition decimal_digits :: "jsstring \<Rightarrow> int option" where
  "decimal_digits s =
     (let ds = takeWhile is_digit s
      in if ds = [] then None else Some (digits_value ds))"

definition signed_integer :: "jsstring \<Rightarrow> int option" where
  "signed_integer s =
     (case s of [] \<Rightarrow> None
      | c # t \<Rightarrow> if c = 0x2B then decimal_digits t
                 else if c = 0x2D then map_option uminus (decimal_digits t)
                 else decimal_digits s)"

definition exponent_part :: "jsstring \<Rightarrow> int" where
  "exponent_part s =
     (case s of [] \<Rightarrow> 0
      | c # t \<Rightarrow> if c = 0x65 \<or> c = 0x45
                 then (case signed_integer t of None \<Rightarrow> 0 | Some e \<Rightarrow> e)
                 else 0)"

definition str_unsigned_decimal :: "jsstring \<Rightarrow> number" where
  "str_unsigned_decimal s =
     (if prefix (js ''Infinity'') s then PosInfinity
      else let ip = takeWhile is_digit s;
               r1 = dropWhile is_digit s;
               (fp, r2) = (case r1 of [] \<Rightarrow> ([], r1)
                           | c # t \<Rightarrow> if c = 0x2E
                                      then (takeWhile is_digit t, dropWhile is_digit t)
                                      else ([], r1))
           in if ip = [] \<and> fp = [] then NaN
              else let k = exponent_part r2 - int (length fp)
                   in to_double (digits_value (ip @ fp) * 10 ^ nat k) (10 ^ nat (- k)))"

definition parseFloat :: "jsstring \<Rightarrow> number" where
  "parseFloat s =
     (case trim_start s of [] \<Rightarrow> NaN
      | c # t \<Rightarrow> if c = 0x2B then str_unsigned_decimal t
                 else if c = 0x2D then negate (str_unsigned_decimal t)
                 else str_unsigned_decimal (c # t))"

text \<open>
  Whether a text has such a prefix: after the leading white space and at most one sign
  it goes on with \<^verbatim>\<open>Infinity\<close>, with a digit, or with a decimal point and a digit.
\<close>

definition starts_numeral :: "jsstring \<Rightarrow> bool" where
  "starts_numeral u \<longleftrightarrow>
     prefix (js ''Infinity'') u \<or>
     (case u of [] \<Rightarrow> False
      | c # t \<Rightarrow> is_digit c \<or>
                 (c = 0x2E \<and> (case t of [] \<Rightarrow> False | c' # t' \<Rightarrow> is_digit c')))"

definition has_numeric_prefix :: "jsstring \<Rightarrow> bool" where
  "has_numeric_prefix s \<longleftrightarrow>
     (case trim_start s of [] \<Rightarrow> False
      | c # t \<Rightarrow> if c = 0x2B \<or> c = 0x2D then starts_numeral t else starts_numeral (c # t))"

section \<open>The expense form\<close>

subsection \<open>Data\<close>

text \<open>
  \<^verbatim>\<open>ExpenseFormData\<close> and the record handed to \<^verbatim>\<open>onSubmit\<close> have the same four
  properties and differ in the type of \<open>amount\<close> only (text in the form, a number in the
  submitted record), so one record type with the amount's type as parameter serves both.
  \<^verbatim>\<open>ExpenseCategory\<close> is a union of string literals that exists at compile time only:
  at run time \<open>category\<close> holds whatever string the select element reports, and the
  validation tests it as a string.
\<close>

record 'a expense =
  description :: jsstring
  amount :: 'a
  category :: jsstring
  date :: jsstring

type_synonym ExpenseFormData = "jsstring expense"
type_synonym ExpenseData = "number expense"

text \<open>The members of \<^verbatim>\<open>ExpenseCategory\<close>.\<close>

definition ExpenseCategory :: "jsstring list" where
  "ExpenseCategory = [js ''Food'', js ''Transportation'', js ''Entertainment'', js ''Other'']"

text \<open>
  The \<^verbatim>\<open>name\<close> attributes of the four controls of the form: the names that
  \<^verbatim>\<open>e.target.name\<close> takes in \<open>handleInputChange\<close>.
\<close>

datatype field = Description | Amount | Category | Date

text \<open>
  \<^verbatim>\<open>FormErrors\<close> is an object with four optional string properties. A property can be
  missing, or present with the value \<^verbatim>\<open>undefined\<close>, or present with a string.
\<close>

datatype jsvalue = Undefined | Str jsstring

type_synonym FormErrors = "field \<rightharpoonup> jsvalue"

text \<open>Reading a property: a missing one reads as \<^verbatim>\<open>undefined\<close>.\<close>

definition read_prop :: "FormErrors \<Rightarrow> field \<Rightarrow> jsvalue" where
  "read_prop obj name = (case obj name of None \<Rightarrow> Undefined | Some v \<Rightarrow> v)"

text \<open>Truthiness, as \<^verbatim>\<open>if (x)\<close> and \<^verbatim>\<open>!x\<close> test it: a string is truthy unless empty.\<close>

fun truthy :: "jsvalue \<Rightarrow> bool" where
  "truthy Undefined = False"
| "truthy (Str s) = (s \<noteq> [])"

text \<open>
  \<^verbatim>\<open>Object.keys\<close>: the properties that are present, whatever their value. The source
  uses the length of the result only, so the keys are listed in a fixed order.
\<close>

definition object_keys :: "FormErrors \<Rightarrow> field list" where
  "object_keys obj = filter (\<lambda>name. obj name \<noteq> None) [Description, Amount, Category, Date]"

subsection \<open>validateExpenseForm\<close>

record validation =
  isValid :: bool
  validation_errors :: FormErrors

definition validateExpenseForm :: "ExpenseFormData \<Rightarrow> validation" where
  "validateExpenseForm data =
     (let validationErrors0 = Map.empty;
          validationErrors1 =
            (if trim (description data) = []
             then validationErrors0(Description \<mapsto> Str (js ''Description is required''))
             else validationErrors0);
          amount_parsed = parseFloat (amount data);
          validationErrors2 =
            (if isNaN amount_parsed \<or> le_zero amount_parsed
             then validationErrors1(Amount \<mapsto> Str (js ''Amount must be a positive number''))
             else validationErrors1);
          validationErrors3 =
            (if category data = []
             then validationErrors2(Category \<mapsto> Str (js ''Category is required''))
             else validationErrors2);
          validationErrors4 =
            (if date data = []
             then validationErrors3(Date \<mapsto> Str (js ''Date is required''))
             else validationErrors3)
      in \<lparr>isValid = (length (object_keys validationErrors4) = 0),
          validation_errors = validationErrors4\<rparr>)"

subsection \<open>The component state and its two handlers\<close>

text \<open>
  The component holds two pieces of state, \<open>formData\<close> and \<open>errors\<close>. Each event is
  handled on the closure of the latest render, so the \<open>errors\<close> a handler reads is the
  current one, and the state after the event is the one its setter calls produce.
\<close>

record form_state =
  formData :: ExpenseFormData
  errors :: FormErrors

text \<open>
  The default values of the form. The date is \<^verbatim>\<open>new Date().toISOString().split('T')[0]\<close>,
  read from the clock: it is a parameter here.
\<close>

definition initialFormData :: "jsstring \<Rightarrow> ExpenseFormData" where
  "initialFormData today =
     \<lparr>description = [], amount = [], category = js ''Food'', date = today\<rparr>"

definition initial_state :: "jsstring \<Rightarrow> form_state" where
  "initial_state today = \<lparr>formData = initialFormData today, errors = Map.empty\<rparr>"

text \<open>The spread \<^verbatim>\<open>{...prev, [name]: value}\<close> on the form data, and a property read.\<close>

fun set_field :: "field \<Rightarrow> jsstring \<Rightarrow> ExpenseFormData \<Rightarrow> ExpenseFormData" where
  "set_field Description v prev = prev\<lparr>description := v\<rparr>"
| "set_field Amount v prev = prev\<lparr>amount := v\<rparr>"
| "set_field Category v prev = prev\<lparr>category := v\<rparr>"
| "set_field Date v prev = prev\<lparr>date := v\<rparr>"

fun get_field :: "field \<Rightarrow> ExpenseFormData \<Rightarrow> jsstring" where
  "get_field Description d = description d"
| "get_field Amount d = amount d"
| "get_field Category d = category d"
| "get_field Date d = date d"

definition handleInputChange :: "field \<Rightarrow> jsstring \<Rightarrow> form_state \<Rightarrow> form_state" where
  "handleInputChange name v s =
     \<lparr>formData = set_field name v (formData s),
      errors = (if truthy (read_prop (errors s) name)
                then (errors s)(name \<mapsto> Undefined)
                else errors s)\<rparr>"

text \<open>
  \<open>handleSubmit\<close> returns the next state and the calls made to the \<open>onSubmit\<close> prop, in
  order. \<open>today\<close> is the date the clock gives when the form is reset. The call
  \<^verbatim>\<open>e.preventDefault()\<close> stops the browser's own submission of the form and touches
  neither piece of state.
\<close>

definition handleSubmit :: "jsstring \<Rightarrow> form_state \<Rightarrow> form_state \<times> ExpenseData list" where
  "handleSubmit today s =
     (let validation = validateExpenseForm (formData s)
      in if \<not> isValid validation
         then (s\<lparr>errors := validation_errors validation\<rparr>, [])
         else (\<lparr>formData = initialFormData today, errors = Map.empty\<rparr>,
               [\<lparr>description = trim (description (formData s)),
                 amount = parseFloat (amount (formData s)),
                 category = category (formData s),
                 date = date (formData s)\<rparr>]))"

text \<open>A session of the form: a sequence of edits and submits from the initial state.\<close>

datatype event = Change field jsstring | Submit jsstring

fun step :: "form_state \<Rightarrow> event \<Rightarrow> form_state" where
  "step s (Change name v) = handleInputChange name v s"
| "step s (Submit today) = fst (handleSubmit today s)"

definition run :: "jsstring \<Rightarrow> event list \<Rightarrow> form_state" where
  "run today evs = foldl step (initial_state today) evs"

subsection \<open>The four tests of the code\<close>

text \<open>
  \<open>rule_fails\<close> is the test that \<open>validateExpenseForm\<close> makes on each field, copied
  from its four \<^verbatim>\<open>if\<close> conditions, and \<open>rule_message\<close> the message it records when the
  test fails. These are the tests of the code; the rules as the specification words them
  follow below and differ on the amount and on the category.
\<close>

fun rule_fails :: "field \<Rightarrow> ExpenseFormData \<Rightarrow> bool" where
  "rule_fails Description d = (trim (description d) = [])"
| "rule_fails Amount d = (isNaN (parseFloat (amount d)) \<or> le_zero (parseFloat (amount d)))"
| "rule_fails Category d = (category d = [])"
| "rule_fails Date d = (date d = [])"

fun rule_message :: "field \<Rightarrow> jsstring" where
  "rule_message Description = js ''Description is required''"
| "rule_message Amount = js ''Amount must be a positive number''"
| "rule_message Category = js ''Category is required''"
| "rule_message Date = js ''Date is required''"

subsection \<open>The four rules in the words of the specification\<close>

text \<open>
  The specification words the rules so: the description fails if the trimmed string is
  empty; the amount is parsed as a decimal number (a leading sign, a decimal point and
  an exponent are accepted, currency symbols and grouping separators are not) and fails
  if that parse fails or the value is less than or equal to zero; the category fails if
  it is empty or not one of the enumerated categories; the date fails if it is empty.
  \<open>spec_parses_as_decimal\<close> reads the text as a whole, white space around it set aside:
  an optional sign, digits with an optional fraction (or a fraction alone), and an
  optional exponent, with nothing left over.
\<close>

definition spec_parses_as_decimal :: "jsstring \<Rightarrow> bool" where
  "spec_parses_as_decimal s =
     (let t = trim s;
          u = (case t of [] \<Rightarrow> t | c # r \<Rightarrow> if c = 0x2B \<or> c = 0x2D then r else t);
          ip = takeWhile is_digit u;
          r1 = dropWhile is_digit u;
          (fp, r2) = (case r1 of [] \<Rightarrow> ([], r1)
                      | c # r \<Rightarrow> if c = 0x2E
                                 then (takeWhile is_digit r, dropWhile is_digit r)
                                 else ([], r1))
      in (ip \<noteq> [] \<or> fp \<noteq> []) \<and>
         (case r2 of [] \<Rightarrow> True
          | c # r \<Rightarrow> (c = 0x65 \<or> c = 0x45) \<and>
                     (let v = (case r of [] \<Rightarrow> r
                               | c' # r' \<Rightarrow> if c' = 0x2B \<or> c' = 0x2D then r' else r)
                      in v \<noteq> [] \<and> list_all is_digit v)))"

fun spec_rule_fails :: "field \<Rightarrow> ExpenseFormData \<Rightarrow> bool" where
  "spec_rule_fails Description d = (trim (description d) = [])"
| "spec_rule_fails Amount d =
     (\<not> spec_parses_as_decimal (amount d) \<or> le_zero (parseFloat (amount d)))"
| "spec_rule_fails Category d = (category d = [] \<or> category d \<notin> set ExpenseCategory)"
| "spec_rule_fails Date d = (date d = [])"

section \<open>Example drafts and sessions\<close>

text \<open>
  The three end-to-end scenarios of the specification (A: a valid draft, with a stale
  amount error in the error map; B: every rule fails; C: only the amount fails, with a
  stale description error in the error map) and the drafts and the session that the
  examples below evaluate.
\<close>

definition scenario_A :: form_state where
  "scenario_A =
     \<lparr>formData = \<lparr>description = js '' Coffee '', amount = js ''4.50'', category = js ''Food'',
                   date = js ''2024-01-15''\<rparr>,
      errors = [Amount \<mapsto> Str (js ''Amount must be a positive number'')]\<rparr>"

definition scenario_B :: ExpenseFormData where
  "scenario_B = \<lparr>description = [], amount = js ''-3'', category = [], date = []\<rparr>"

definition scenario_C :: form_state where
  "scenario_C =
     \<lparr>formData = \<lparr>description = js ''Bus'', amount = js ''abc'',
                   category = js ''Transportation'', date = js ''2024-02-01''\<rparr>,
      errors = [Description \<mapsto> Str (js ''Description is required'')]\<rparr>"

definition draft_12_50 :: ExpenseFormData where
  "draft_12_50 =
     \<lparr>description = js ''Lunch'', amount = js ''12.50'', category = js ''Food'',
      date = js ''2024-01-15''\<rparr>"

definition draft_Shopping :: ExpenseFormData where
  "draft_Shopping =
     \<lparr>description = js ''Shoes'', amount = js ''4.50'', category = js ''Shopping'',
      date = js ''2024-01-15''\<rparr>"

definition draft_12_000 :: ExpenseFormData where
  "draft_12_000 =
     \<lparr>description = js ''Rent'', amount = js ''12,000'', category = js ''Other'',
      date = js ''2024-01-15''\<rparr>"

definition draft_0_50_grouped :: ExpenseFormData where
  "draft_0_50_grouped =
     \<lparr>description = js ''Gum'', amount = js ''0,50'', category = js ''Food'',
      date = js ''2024-01-15''\<rparr>"

definition draft_12abc :: ExpenseFormData where
  "draft_12abc =
     \<lparr>description = js ''Books'', amount = js ''12abc'', category = js ''Other'',
      date = js ''2024-01-15''\<rparr>"

definition draft_dollar_5 :: ExpenseFormData where
  "draft_dollar_5 =
     \<lparr>description = js ''Tea'', amount = js ''$5'', category = js ''Food'',
      date = js ''2024-01-15''\<rparr>"

definition draft_blank_amount :: ExpenseFormData where
  "draft_blank_amount =
     \<lparr>description = js ''Tea'', amount = js ''   '', category = js ''Food'',
      date = js ''2024-01-15''\<rparr>"

definition edit_after_failed_submit :: "event list" where
  "edit_after_failed_submit =
     [Change Amount (js ''abc''), Submit (js ''2024-03-09''), Change Amount (js ''12.50'')]"

section \<open>What validateExpenseForm computes\<close>

lemma validation_errors_eq:
  "validation_errors (validateExpenseForm d) name =
     (if rule_fails name d then Some (Str (rule_message name)) else None)"
  by (cases name) (simp_all add: validateExpenseForm_def Let_def)

lemma isValid_eq:
  "isValid (validateExpenseForm d) \<longleftrightarrow>
     \<not> rule_fails Description d \<and> \<not> rule_fails Amount d \<and>
     \<not> rule_fails Category d \<and> \<not> rule_fails Date d"
  by (simp add: validateExpenseForm_def Let_def object_keys_def)

lemma rule_message_not_empty: "rule_message name \<noteq> []"
  by (cases name) (simp_all add: js_def)

lemma read_prop_validation_errors:
  "read_prop (validation_errors (validateExpenseForm d)) name =
     (if rule_fails name d then Str (rule_message name) else Undefined)"
  by (simp add: read_prop_def validation_errors_eq)

lemma rule_fails_set_field_other:
  "name \<noteq> g \<Longrightarrow> rule_fails name (set_field g v d) = rule_fails name d"
  by (cases name; cases g) simp_all

lemma get_field_set_field:
  "get_field name (set_field g v d) = (if name = g then v else get_field name d)"
  by (cases name; cases g) simp_all

section \<open>parseFloat on literals and on text without a numeral\<close>

text \<open>
  The rounding is evaluated first, on its own: unfolding it under the case analysis of
  the parser would not terminate. \<open>0.1\<close> is not a double and is rounded to the nearest
  one; \<open>2 ^ 53 + 1\<close> lies halfway between two doubles and goes to the even one.
\<close>

lemma to_double_450: "to_double 450 100 = Num (9 / 2)"
  by (simp add: to_double_def ilog2_def compute_bitlen round_ties_even_def Let_def)

lemma to_double_1250: "to_double 1250 100 = Num (25 / 2)"
  by (simp add: to_double_def ilog2_def compute_bitlen round_ties_even_def Let_def)

lemma to_double_12: "to_double 12 1 = Num 12"
  by (simp add: to_double_def ilog2_def compute_bitlen round_ties_even_def Let_def)

lemma to_double_3: "to_double 3 1 = Num 3"
  by (simp add: to_double_def ilog2_def compute_bitlen round_ties_even_def Let_def)

lemma to_double_tenth: "to_double 1 10 = Num (3602879701896397 / 36028797018963968)"
  by (simp add: to_double_def ilog2_def compute_bitlen round_ties_even_def Let_def)

lemma to_double_tie: "to_double 9007199254740993 1 = Num 9007199254740992"
  by (simp add: to_double_def ilog2_def compute_bitlen round_ties_even_def Let_def)

lemmas parse_defs = js_def parseFloat_def trim_start_def is_white_space_def str_unsigned_decimal_def
  is_digit_def digits_value_def digit_value_def exponent_part_def signed_integer_def
  decimal_digits_def

lemma parseFloat_0_1: "parseFloat (js ''0.1'') = Num (3602879701896397 / 36028797018963968)"
  by (simp add: parse_defs to_double_tenth)

lemma parseFloat_4_50: "parseFloat (js ''4.50'') = Num (9 / 2)"
  by (simp add: parse_defs to_double_450)

lemma parseFloat_12_50: "parseFloat (js ''12.50'') = Num (25 / 2)"
  by (simp add: parse_defs to_double_1250)

lemma parseFloat_12_000: "parseFloat (js ''12,000'') = Num 12"
  by (simp add: parse_defs to_double_12)

lemma parseFloat_minus_3: "parseFloat (js ''-3'') = Num (- 3)"
  by (simp add: parse_defs to_double_3)

lemma to_double_0: "to_double 0 b = Num 0"
  by (simp add: to_double_def)

lemma parseFloat_0_50_grouped: "parseFloat (js ''0,50'') = Num 0"
  by (simp add: parse_defs to_double_0)

lemma parseFloat_12abc: "parseFloat (js ''12abc'') = Num 12"
  by (simp add: parse_defs to_double_12)

lemma parseFloat_abc: "parseFloat (js ''abc'') = NaN"
  by (simp add: parse_defs)

lemma trim_Coffee: "trim (js '' Coffee '') = js ''Coffee''"
  by (simp add: js_def trim_def is_white_space_def)

lemma parseFloat_white_space:
  assumes "\<forall>c\<in>set s. is_white_space c"
  shows "parseFloat s = NaN"
proof -
  from assms have d: "dropWhile is_white_space s = []"
    by simp
  show ?thesis
    unfolding parseFloat_def trim_start_def d by simp
qed

text \<open>The parse is NaN exactly on the texts that have no numeral at their start.\<close>

lemma to_double_not_NaN: "to_double a b \<noteq> NaN"
  by (simp add: to_double_def Let_def)

lemma negate_NaN_iff: "negate x = NaN \<longleftrightarrow> x = NaN"
  by (cases x) simp_all

lemma str_unsigned_decimal_NaN_iff: "str_unsigned_decimal u = NaN \<longleftrightarrow> \<not> starts_numeral u"
proof (cases "prefix (js ''Infinity'') u")
  case True
  then show ?thesis
    by (simp add: str_unsigned_decimal_def starts_numeral_def)
next
  case no_inf: False
  show ?thesis
  proof (cases u)
    case Nil
    with no_inf show ?thesis
      by (simp add: str_unsigned_decimal_def starts_numeral_def)
  next
    case (Cons c t)
    show ?thesis
    proof (cases "is_digit c")
      case True
      with no_inf Cons show ?thesis
        by (simp add: str_unsigned_decimal_def starts_numeral_def Let_def to_double_not_NaN
            split: prod.splits)
    next
      case no_digit: False
      show ?thesis
      proof (cases "c = 0x2E")
        case True
        with no_inf Cons no_digit show ?thesis
          by (cases t)
            (simp_all add: str_unsigned_decimal_def starts_numeral_def Let_def to_double_not_NaN)
      next
        case False
        with no_inf Cons no_digit show ?thesis
          by (simp add: str_unsigned_decimal_def starts_numeral_def)
      qed
    qed
  qed
qed

lemma parseFloat_NaN_iff: "parseFloat s = NaN \<longleftrightarrow> \<not> has_numeric_prefix s"
  by (cases "trim_start s")
    (simp_all add: parseFloat_def has_numeric_prefix_def str_unsigned_decimal_NaN_iff
      negate_NaN_iff)

section \<open>Errors in the sessions of the form\<close>

text \<open>
  In every state of a session, a property of the error map reads as \<^verbatim>\<open>undefined\<close>
  or as the message of its field, and in the second case the field fails its rule. Each
  handler keeps this.
\<close>

lemma step_keeps_errors_justified:
  assumes "\<And>name. read_prop (errors s) name = Undefined \<or>
             read_prop (errors s) name = Str (rule_message name) \<and> rule_fails name (formData s)"
  shows "read_prop (errors (step s e)) name = Undefined \<or>
         read_prop (errors (step s e)) name = Str (rule_message name) \<and>
         rule_fails name (formData (step s e))"
proof (cases e)
  case (Change g v)
  show ?thesis
  proof (cases "name = g")
    case True
    from assms [of g] have "read_prop (errors s) g = Undefined \<or> truthy (read_prop (errors s) g)"
      by (auto simp add: rule_message_not_empty)
    with True Change show ?thesis
      by (auto simp add: handleInputChange_def read_prop_def)
  next
    case False
    with assms [of name] Change show ?thesis
      by (auto simp add: handleInputChange_def read_prop_def rule_fails_set_field_other)
  qed
next
  case (Submit today)
  show ?thesis
  proof (cases "isValid (validateExpenseForm (formData s))")
    case True
    with Submit show ?thesis
      by (simp add: handleSubmit_def read_prop_def)
  next
    case False
    with Submit show ?thesis
      by (simp add: handleSubmit_def read_prop_validation_errors)
  qed
qed

lemma foldl_step_keeps_errors_justified:
  assumes "\<And>name. read_prop (errors s) name = Undefined \<or>
             read_prop (errors s) name = Str (rule_message name) \<and> rule_fails name (formData s)"
  shows "read_prop (errors (foldl step s evs)) name = Undefined \<or>
         read_prop (errors (foldl step s evs)) name = Str (rule_message name) \<and>
         rule_fails name (formData (foldl step s evs))"
  using assms
proof (induction evs arbitrary: s name)
  case Nil
  then show ?case by simp
next
  case (Cons e evs)
  have "read_prop (errors (foldl step (step s e) evs)) name = Undefined \<or>
        read_prop (errors (foldl step (step s e) evs)) name = Str (rule_message name) \<and>
        rule_fails name (formData (foldl step (step s e) evs))"
    by (rule Cons.IH) (rule step_keeps_errors_justified, rule Cons.prems)
  then show ?case by simp
qed

lemma run_errors_justified:
  "read_prop (errors (run today evs)) name = Undefined \<or>
   read_prop (errors (run today evs)) name = Str (rule_message name) \<and>
   rule_fails name (formData (run today evs))"
  unfolding run_def
  by (rule foldl_step_keeps_errors_justified) (simp add: initial_state_def read_prop_def)

text \<open>
  The session \<open>edit_after_failed_submit\<close>, step by step: the failed submit records the
  amount error, and the edit of the amount writes \<^verbatim>\<open>undefined\<close> under the key.
\<close>

lemma run_failed_submit:
  "run (js ''2024-03-08'') [Change Amount (js ''abc''), Submit (js ''2024-03-09'')] =
     \<lparr>formData = set_field Amount (js ''abc'') (initialFormData (js ''2024-03-08'')),
      errors = validation_errors (validateExpenseForm
                 (set_field Amount (js ''abc'') (initialFormData (js ''2024-03-08''))))\<rparr>"
proof -
  have "rule_fails Amount (set_field Amount (js ''abc'') (initialFormData (js ''2024-03-08'')))"
    by (simp add: parseFloat_abc isNaN_def)
  then have "\<not> isValid (validateExpenseForm
                  (set_field Amount (js ''abc'') (initialFormData (js ''2024-03-08''))))"
    by (simp add: isValid_eq)
  then show ?thesis
    by (simp add: run_def initial_state_def handleInputChange_def handleSubmit_def read_prop_def)
qed

lemma run_failed_submit_amount_error:
  "errors (run (js ''2024-03-08'') [Change Amount (js ''abc''), Submit (js ''2024-03-09'')]) Amount
     = Some (Str (js ''Amount must be a positive number''))"
  unfolding run_failed_submit
  by (simp add: validation_errors_eq parseFloat_abc isNaN_def)

lemma run_edit_after_failed_submit:
  "run (js ''2024-03-08'') edit_after_failed_submit =
     handleInputChange Amount (js ''12.50'')
       (run (js ''2024-03-08'') [Change Amount (js ''abc''), Submit (js ''2024-03-09'')])"
  by (simp add: run_def edit_after_failed_submit_def)

lemma run_edit_after_failed_submit_amount:
  "amount (formData (run (js ''2024-03-08'') edit_after_failed_submit)) = js ''12.50''"
  unfolding run_edit_after_failed_submit by (simp add: handleInputChange_def)

lemma run_edit_after_failed_submit_key:
  "errors (run (js ''2024-03-08'') edit_after_failed_submit) Amount = Some Undefined"
proof -
  have "js ''Amount must be a positive number'' \<noteq> []"
    by (simp add: js_def)
  then show ?thesis
    unfolding run_edit_after_failed_submit
    by (simp add: handleInputChange_def read_prop_def run_failed_submit_amount_error)
qed

section \<open>The claims\<close>

subsection \<open>C1: the validator reports every failed test\<close>

text \<open>
  Claim C1 says that \<open>validateExpenseForm\<close> returns \<open>isValid = true\<close> if and only if
  none of the four field rules failed, and that the error map has one entry per failed
  rule. With the rules as the specification words them this does not hold: the category
  \<open>Shopping\<close> is not one of the enumerated categories, so the category rule fails, and
  yet the draft is valid and the error map has no entry for the category.
\<close>

theorem spec_category_rule_counterexample:
  "spec_rule_fails Category draft_Shopping \<and>
   isValid (validateExpenseForm draft_Shopping) \<and>
   validation_errors (validateExpenseForm draft_Shopping) Category = None"
proof -
  have "spec_rule_fails Category draft_Shopping"
    by (simp add: draft_Shopping_def ExpenseCategory_def js_def)
  moreover have "isValid (validateExpenseForm draft_Shopping)"
    unfolding isValid_eq
    by (simp add: draft_Shopping_def parseFloat_4_50 isNaN_def)
      (simp add: js_def trim_def is_white_space_def)
  moreover have "validation_errors (validateExpenseForm draft_Shopping) Category = None"
    by (simp add: validation_errors_eq draft_Shopping_def js_def)
  ultimately show ?thesis
    by blast
qed

text \<open>
  Claim C1, amended. For every draft, \<open>validateExpenseForm\<close> returns \<open>isValid = true\<close> if
  and only if none of the four tests that the code makes failed (the description is
  empty after trimming; \<open>parseFloat\<close> of the amount is NaN or is less than or equal to
  zero; the category is the empty string; the date is the empty string), and the returned
  error map has exactly one entry per failed test, under that field's name, holding that
  field's message: all four tests are made, so a field that failed appears whether or not
  an earlier field failed too.
\<close>

theorem validate_reports_every_failed_rule:
  "(isValid (validateExpenseForm d) \<longleftrightarrow> (\<forall>name. \<not> rule_fails name d)) \<and>
   (\<forall>name. validation_errors (validateExpenseForm d) name =
             (if rule_fails name d then Some (Str (rule_message name)) else None))"
proof (intro conjI allI)
  have "(\<forall>name. \<not> rule_fails name d) \<longleftrightarrow>
        \<not> rule_fails Description d \<and> \<not> rule_fails Amount d \<and>
        \<not> rule_fails Category d \<and> \<not> rule_fails Date d"
    by (metis field.exhaust)
  then show "isValid (validateExpenseForm d) \<longleftrightarrow> (\<forall>name. \<not> rule_fails name d)"
    by (simp only: isValid_eq)
next
  fix name
  show "validation_errors (validateExpenseForm d) name =
          (if rule_fails name d then Some (Str (rule_message name)) else None)"
    by (rule validation_errors_eq)
qed

text \<open>
  Scenario B: an empty description, the amount \<open>-3\<close>, an empty category and an empty date
  give all four errors at once.
\<close>

theorem validate_reports_every_failed_rule_witness:
  "\<not> isValid (validateExpenseForm scenario_B) \<and>
   validation_errors (validateExpenseForm scenario_B) =
     [Description \<mapsto> Str (js ''Description is required''),
      Amount \<mapsto> Str (js ''Amount must be a positive number''),
      Category \<mapsto> Str (js ''Category is required''),
      Date \<mapsto> Str (js ''Date is required'')]"
proof -
  have f: "rule_fails name scenario_B" for name
    by (cases name) (simp_all add: scenario_B_def trim_def parseFloat_minus_3 isNaN_def)
  note t = validate_reports_every_failed_rule [of scenario_B]
  from t f have "\<not> isValid (validateExpenseForm scenario_B)"
    by blast
  moreover have "validation_errors (validateExpenseForm scenario_B) name =
      [Description \<mapsto> Str (js ''Description is required''),
       Amount \<mapsto> Str (js ''Amount must be a positive number''),
       Category \<mapsto> Str (js ''Category is required''),
       Date \<mapsto> Str (js ''Date is required'')] name" for name
    using t f by (cases name) simp_all
  ultimately show ?thesis
    by blast
qed

subsection \<open>C2: the amount error\<close>

text \<open>
  Claim C2 says that the amount error is reported if and only if parsing the raw amount
  text as a decimal number fails or the parsed value is less than or equal to zero. The
  text \<open>12abc\<close> is not a decimal number, and it gets no amount error: \<open>parseFloat\<close>
  reads the numeral at its start, 12, and does not look at the rest.
\<close>

theorem non_decimal_amount_counterexample:
  "\<not> spec_parses_as_decimal (amount draft_12abc) \<and>
   parseFloat (amount draft_12abc) = Num 12 \<and>
   validation_errors (validateExpenseForm draft_12abc) Amount = None"
proof -
  have "\<not> spec_parses_as_decimal (amount draft_12abc)"
    by (simp add: draft_12abc_def spec_parses_as_decimal_def js_def trim_def is_white_space_def
        is_digit_def)
  moreover have p: "parseFloat (amount draft_12abc) = Num 12"
    by (simp add: draft_12abc_def parseFloat_12abc)
  moreover from p have "validation_errors (validateExpenseForm draft_12abc) Amount = None"
    by (simp add: validation_errors_eq isNaN_def)
  ultimately show ?thesis
    by blast
qed

text \<open>
  Claim C2, amended. For every draft, \<open>validateExpenseForm\<close> reports the amount error
  (\<^verbatim>\<open>Amount must be a positive number\<close>) if and only if the raw amount text has no numeral
  at its start (after leading white space and at most one sign it does not go on with a
  digit, with a decimal point and a digit, or with \<^verbatim>\<open>Infinity\<close>) or the number that
  \<open>parseFloat\<close> reads from the start of the text is less than or equal to zero; it
  reports nothing on the amount otherwise. In particular a draft whose amount parses to a
  positive number has no amount error.
\<close>

theorem amount_error_iff_no_numeral_or_not_positive:
  "(validation_errors (validateExpenseForm d) Amount
      = Some (Str (js ''Amount must be a positive number''))
    \<longleftrightarrow> \<not> has_numeric_prefix (amount d) \<or> le_zero (parseFloat (amount d))) \<and>
   (validation_errors (validateExpenseForm d) Amount = None
    \<longleftrightarrow> has_numeric_prefix (amount d) \<and> \<not> le_zero (parseFloat (amount d))) \<and>
   ((\<exists>q. 0 < q \<and> parseFloat (amount d) = Num q)
    \<longrightarrow> validation_errors (validateExpenseForm d) Amount = None)"
proof -
  have "isNaN (parseFloat (amount d)) \<longleftrightarrow> \<not> has_numeric_prefix (amount d)"
    by (simp add: isNaN_def parseFloat_NaN_iff)
  moreover have "(\<exists>q. 0 < q \<and> parseFloat (amount d) = Num q)
      \<longrightarrow> \<not> isNaN (parseFloat (amount d)) \<and> \<not> le_zero (parseFloat (amount d))"
    by (auto simp add: isNaN_def)
  ultimately show ?thesis
    by (auto simp add: validation_errors_eq)
qed

theorem amount_error_iff_no_numeral_or_not_positive_witness:
  "(0::rat) < 25 / 2 \<and> parseFloat (amount draft_12_50) = Num (25 / 2) \<and>
   has_numeric_prefix (amount draft_12_50) \<and>
   validation_errors (validateExpenseForm draft_12_50) Amount = None"
proof -
  have p: "parseFloat (amount draft_12_50) = Num (25 / 2)"
    by (simp add: draft_12_50_def parseFloat_12_50)
  then have x: "\<exists>q. 0 < q \<and> parseFloat (amount draft_12_50) = Num q"
    by (intro exI [of _ "25 / 2"]) simp
  note c = amount_error_iff_no_numeral_or_not_positive [of draft_12_50]
  from c x have n: "validation_errors (validateExpenseForm draft_12_50) Amount = None"
    by blast
  with c have "has_numeric_prefix (amount draft_12_50)"
    by blast
  with n p show ?thesis
    by simp
qed

subsection \<open>C3: categories outside the enumeration\<close>

text \<open>
  Claim C3 says that a draft whose category is not empty and is not one of Food,
  Transportation, Entertainment, Other gets a category error. It does not: the rule tests
  \<^verbatim>\<open>!data.category\<close>, that is emptiness, and nothing else. The category \<open>Shopping\<close> passes,
  and the draft that carries it is valid.
\<close>

theorem category_outside_enumeration_counterexample:
  "category draft_Shopping \<noteq> [] \<and>
   category draft_Shopping \<notin> set ExpenseCategory \<and>
   validation_errors (validateExpenseForm draft_Shopping) Category = None \<and>
   isValid (validateExpenseForm draft_Shopping)"
proof -
  have "category draft_Shopping \<noteq> []" "category draft_Shopping \<notin> set ExpenseCategory"
    by (simp_all add: draft_Shopping_def ExpenseCategory_def js_def)
  moreover have "validation_errors (validateExpenseForm draft_Shopping) Category = None"
    by (simp add: validation_errors_eq draft_Shopping_def js_def)
  moreover have "isValid (validateExpenseForm draft_Shopping)"
    unfolding isValid_eq
    by (simp add: draft_Shopping_def parseFloat_4_50 isNaN_def) (simp add: js_def trim_def is_white_space_def)
  ultimately show ?thesis
    by blast
qed

text \<open>
  Claim C3, amended. For every draft, \<open>validateExpenseForm\<close> reports
  \<^verbatim>\<open>Category is required\<close> on the category exactly when the category is the empty string;
  a category that is not empty gets no error, enumerated or not.
\<close>

theorem category_error_iff_empty:
  "validation_errors (validateExpenseForm d) Category =
     (if category d = [] then Some (Str (js ''Category is required'')) else None)"
  by (simp add: validation_errors_eq)

subsection \<open>C4: currency symbols and grouping separators\<close>

text \<open>
  Claim C4 says that an amount text with a currency symbol or a grouping separator is
  never accepted. \<open>parseFloat\<close> reads the longest numeral at the start of the text and
  ignores the rest, so \<open>12,000\<close> is read as 12 and accepted.
\<close>

theorem grouping_separator_counterexample:
  "0x2C \<in> set (amount draft_12_000) \<and>
   parseFloat (amount draft_12_000) = Num 12 \<and>
   validation_errors (validateExpenseForm draft_12_000) Amount = None \<and>
   isValid (validateExpenseForm draft_12_000)"
proof -
  have "0x2C \<in> set (amount draft_12_000)"
    by (simp add: draft_12_000_def js_def)
  moreover have p: "parseFloat (amount draft_12_000) = Num 12"
    by (simp add: draft_12_000_def parseFloat_12_000)
  moreover from p have "validation_errors (validateExpenseForm draft_12_000) Amount = None"
    by (simp add: validation_errors_eq isNaN_def)
  moreover have "isValid (validateExpenseForm draft_12_000)"
    unfolding isValid_eq using p
    by (simp add: isNaN_def) (simp add: draft_12_000_def js_def trim_def is_white_space_def)
  ultimately show ?thesis
    by blast
qed

text \<open>
  Claim C4, amended. For every draft whose amount text has no numeral at its start
  (after leading white space and at most one sign the text does not go on with a digit,
  with a decimal point and a digit, or with \<^verbatim>\<open>Infinity\<close>), the parse is NaN and
  \<open>validateExpenseForm\<close> reports the amount error: every text in which a currency symbol
  or a grouping separator comes where the numeral should start is of this kind, \<open>$5\<close>
  for one. The amount error is also reported for every draft whose text starts with a
  numeral that is read as a number less than or equal to zero, whatever follows the
  numeral, as in \<open>0,50\<close>. An amount text is accepted only if it starts with a numeral
  that is read as a number greater than zero.
\<close>

theorem amount_accepted_only_with_positive_numeral:
  "(\<not> has_numeric_prefix (amount d) \<longrightarrow>
      parseFloat (amount d) = NaN \<and>
      validation_errors (validateExpenseForm d) Amount
        = Some (Str (js ''Amount must be a positive number''))) \<and>
   (le_zero (parseFloat (amount d)) \<longrightarrow>
      validation_errors (validateExpenseForm d) Amount
        = Some (Str (js ''Amount must be a positive number''))) \<and>
   (validation_errors (validateExpenseForm d) Amount = None \<longrightarrow>
      has_numeric_prefix (amount d) \<and> \<not> le_zero (parseFloat (amount d)))"
proof -
  have "isNaN (parseFloat (amount d)) \<longleftrightarrow> \<not> has_numeric_prefix (amount d)"
    by (simp add: isNaN_def parseFloat_NaN_iff)
  then show ?thesis
    by (auto simp add: validation_errors_eq isNaN_def)
qed

theorem amount_accepted_only_with_positive_numeral_witness:
  "\<not> has_numeric_prefix (amount draft_dollar_5) \<and>
   parseFloat (amount draft_dollar_5) = NaN \<and>
   validation_errors (validateExpenseForm draft_dollar_5) Amount
     = Some (Str (js ''Amount must be a positive number'')) \<and>
   le_zero (parseFloat (amount draft_0_50_grouped)) \<and>
   validation_errors (validateExpenseForm draft_0_50_grouped) Amount
     = Some (Str (js ''Amount must be a positive number'')) \<and>
   validation_errors (validateExpenseForm draft_12_000) Amount = None \<and>
   has_numeric_prefix (amount draft_12_000) \<and>
   \<not> le_zero (parseFloat (amount draft_12_000))"
proof -
  have h: "\<not> has_numeric_prefix (amount draft_dollar_5)"
    by (simp add: draft_dollar_5_def has_numeric_prefix_def starts_numeral_def js_def
        trim_start_def is_white_space_def is_digit_def)
  have z: "le_zero (parseFloat (amount draft_0_50_grouped))"
    by (simp add: draft_0_50_grouped_def parseFloat_0_50_grouped)
  have p: "parseFloat (amount draft_12_000) = Num 12"
    by (simp add: draft_12_000_def parseFloat_12_000)
  then have n: "validation_errors (validateExpenseForm draft_12_000) Amount = None"
    by (simp add: validation_errors_eq isNaN_def)
  from amount_accepted_only_with_positive_numeral [of draft_dollar_5] h
  have a: "parseFloat (amount draft_dollar_5) = NaN \<and>
      validation_errors (validateExpenseForm draft_dollar_5) Amount
        = Some (Str (js ''Amount must be a positive number''))"
    by blast
  from amount_accepted_only_with_positive_numeral [of draft_0_50_grouped] z
  have b: "validation_errors (validateExpenseForm draft_0_50_grouped) Amount
      = Some (Str (js ''Amount must be a positive number''))"
    by blast
  from amount_accepted_only_with_positive_numeral [of draft_12_000] n
  have c: "has_numeric_prefix (amount draft_12_000) \<and>
      \<not> le_zero (parseFloat (amount draft_12_000))"
    by blast
  from h a z b n c show ?thesis
    by blast
qed

subsection \<open>C5: submitting a valid draft\<close>

text \<open>
  Claim C5. For every state whose draft passes validation, \<open>handleSubmit\<close> clears the
  error map, calls \<open>onSubmit\<close> exactly once, with the description trimmed, the amount
  replaced by its parsed number and the category and date as they are, and resets the
  draft to its initial values (empty description, empty amount, category \<open>Food\<close>, the date
  of the day).
\<close>

theorem submit_valid_draft:
  assumes "isValid (validateExpenseForm (formData s))"
  shows "handleSubmit today s =
           (\<lparr>formData = \<lparr>description = [], amount = [], category = js ''Food'',
                          date = today\<rparr>,
             errors = Map.empty\<rparr>,
            [\<lparr>description = trim (description (formData s)),
              amount = parseFloat (amount (formData s)),
              category = category (formData s),
              date = date (formData s)\<rparr>])"
  using assms by (simp add: handleSubmit_def initialFormData_def)

text \<open>
  Scenario A: the draft \<open>" Coffee "\<close>, \<open>"4.50"\<close>, \<open>"Food"\<close>, \<open>"2024-01-15"\<close> sends
  \<open>"Coffee"\<close>, 4.5, \<open>"Food"\<close>, \<open>"2024-01-15"\<close>, and the stale amount error is gone.
\<close>

theorem submit_valid_draft_witness:
  "isValid (validateExpenseForm (formData scenario_A)) \<and>
   handleSubmit (js ''2024-03-09'') scenario_A =
     (\<lparr>formData = \<lparr>description = [], amount = [], category = js ''Food'',
                    date = js ''2024-03-09''\<rparr>,
       errors = Map.empty\<rparr>,
      [\<lparr>description = js ''Coffee'', amount = Num (9 / 2), category = js ''Food'',
        date = js ''2024-01-15''\<rparr>])"
proof -
  have v: "isValid (validateExpenseForm (formData scenario_A))"
    unfolding isValid_eq
    by (simp add: scenario_A_def parseFloat_4_50 trim_Coffee isNaN_def) (simp add: js_def)
  from submit_valid_draft [OF v, of "js ''2024-03-09''"] v show ?thesis
    by (simp add: scenario_A_def parseFloat_4_50 trim_Coffee)
qed

subsection \<open>C6: submitting an invalid draft\<close>

text \<open>
  Claim C6. For every state whose draft fails validation, \<open>handleSubmit\<close> replaces the
  error map as a whole with the errors that \<open>validateExpenseForm\<close> returns, leaves the
  draft as it is, and does not call \<open>onSubmit\<close>.
\<close>

theorem submit_invalid_draft:
  assumes "\<not> isValid (validateExpenseForm (formData s))"
  shows "handleSubmit today s =
           (\<lparr>formData = formData s,
             errors = validation_errors (validateExpenseForm (formData s))\<rparr>, [])"
  using assms by (simp add: handleSubmit_def)

text \<open>
  Scenario C: with the amount \<open>abc\<close> the new error map holds the amount error only; the
  description error that the old map held is not carried over.
\<close>

theorem submit_invalid_draft_witness:
  "\<not> isValid (validateExpenseForm (formData scenario_C)) \<and>
   handleSubmit (js ''2024-03-09'') scenario_C =
     (\<lparr>formData = formData scenario_C,
       errors = [Amount \<mapsto> Str (js ''Amount must be a positive number'')]\<rparr>, [])"
proof -
  have f: "rule_fails Amount (formData scenario_C)"
    by (simp add: scenario_C_def parseFloat_abc isNaN_def)
  then have v: "\<not> isValid (validateExpenseForm (formData scenario_C))"
    by (simp add: isValid_eq)
  have "validation_errors (validateExpenseForm (formData scenario_C)) name =
          [Amount \<mapsto> Str (js ''Amount must be a positive number'')] name" for name
    unfolding validation_errors_eq using f
    by (cases name) (simp_all add: scenario_C_def js_def trim_def is_white_space_def)
  then have "validation_errors (validateExpenseForm (formData scenario_C)) =
          [Amount \<mapsto> Str (js ''Amount must be a positive number'')]"
    by blast
  with submit_invalid_draft [OF v, of "js ''2024-03-09''"] v show ?thesis
    by simp
qed

subsection \<open>C7: editing a field\<close>

text \<open>
  Claim C7 says that \<open>handleInputChange\<close> removes the error entry of the edited field,
  so that \<open>errors.amount\<close> is absent afterwards. The entry is not removed: the handler
  writes \<^verbatim>\<open>[name]: undefined\<close>, so the key stays in the error map, with the value
  \<^verbatim>\<open>undefined\<close>, and \<^verbatim>\<open>Object.keys\<close> still lists it.
\<close>

theorem edited_field_key_stays_counterexample:
  "errors scenario_A Amount = Some (Str (js ''Amount must be a positive number'')) \<and>
   errors (handleInputChange Amount (js ''12.50'') scenario_A) Amount = Some Undefined \<and>
   object_keys (errors (handleInputChange Amount (js ''12.50'') scenario_A)) = [Amount]"
  by (simp add: scenario_A_def handleInputChange_def read_prop_def object_keys_def js_def)

text \<open>
  Claim C7, amended. For every state, every one of the four field names and every new
  value, \<open>handleInputChange\<close> sets that field of the draft to the value and leaves the
  other three fields as they are. If the error map holds a message for the field (the
  property is truthy, the test of the handler), the handler overwrites it with
  \<^verbatim>\<open>undefined\<close>: the key stays in the map and reads as \<^verbatim>\<open>undefined\<close>. If it holds none,
  the property of the field is left as it is. Either way the field shows no error
  afterwards, and the properties of the other fields are unchanged. In particular, with
  an amount error set, changing the amount to \<open>12.50\<close> leaves \<open>errors.amount\<close>
  \<^verbatim>\<open>undefined\<close>, without any submit.
\<close>

theorem field_change_sets_field_and_clears_its_error:
  "get_field name (formData (handleInputChange name v s)) = v \<and>
   (\<forall>other. other \<noteq> name \<longrightarrow>
      get_field other (formData (handleInputChange name v s)) = get_field other (formData s)) \<and>
   (truthy (read_prop (errors s) name) \<longrightarrow>
      errors (handleInputChange name v s) name = Some Undefined) \<and>
   (\<not> truthy (read_prop (errors s) name) \<longrightarrow>
      errors (handleInputChange name v s) name = errors s name) \<and>
   \<not> truthy (read_prop (errors (handleInputChange name v s)) name) \<and>
   (\<forall>other. other \<noteq> name \<longrightarrow>
      errors (handleInputChange name v s) other = errors s other)"
  by (simp add: handleInputChange_def get_field_set_field read_prop_def)

theorem field_change_sets_field_and_clears_its_error_witness:
  "Description \<noteq> Amount \<and>
   truthy (read_prop (errors scenario_A) Amount) \<and>
   get_field Amount (formData (handleInputChange Amount (js ''12.50'') scenario_A)) = js ''12.50'' \<and>
   get_field Description (formData (handleInputChange Amount (js ''12.50'') scenario_A))
     = js '' Coffee '' \<and>
   errors (handleInputChange Amount (js ''12.50'') scenario_A) Amount = Some Undefined \<and>
   read_prop (errors (handleInputChange Amount (js ''12.50'') scenario_A)) Amount = Undefined"
proof -
  have t: "truthy (read_prop (errors scenario_A) Amount)"
    by (simp add: scenario_A_def read_prop_def js_def)
  have d: "get_field Description (formData scenario_A) = js '' Coffee ''"
    by (simp add: scenario_A_def)
  note c = field_change_sets_field_and_clears_its_error [of Amount "js ''12.50''" scenario_A]
  from c have "get_field Description (formData (handleInputChange Amount (js ''12.50'') scenario_A))
      = get_field Description (formData scenario_A)"
    by blast
  with c t d show ?thesis
    by (simp add: read_prop_def)
qed

subsection \<open>C8: no error on a field that passes its test\<close>

text \<open>
  Claim C8 says that in every state reached from the initial state the error map
  contains no entry for a field whose current value satisfies its rule. After a failed
  submit and an edit of the amount to \<open>12.50\<close>, the amount satisfies its rule, as the
  code tests it and as the specification words it, and the error map still has the key
  of the amount, with the value \<^verbatim>\<open>undefined\<close>.
\<close>

theorem satisfied_field_key_stays_counterexample:
  "\<not> rule_fails Amount (formData (run (js ''2024-03-08'') edit_after_failed_submit)) \<and>
   \<not> spec_rule_fails Amount (formData (run (js ''2024-03-08'') edit_after_failed_submit)) \<and>
   errors (run (js ''2024-03-08'') edit_after_failed_submit) Amount = Some Undefined \<and>
   Amount \<in> set (object_keys (errors (run (js ''2024-03-08'') edit_after_failed_submit)))"
proof -
  have "spec_parses_as_decimal (js ''12.50'')"
    by (simp add: spec_parses_as_decimal_def js_def trim_def is_white_space_def is_digit_def)
  then show ?thesis
    by (simp add: run_edit_after_failed_submit_amount run_edit_after_failed_submit_key
        parseFloat_12_50 isNaN_def object_keys_def)
qed

text \<open>
  Claim C8, amended. In every state reached from the initial state (the default draft,
  the empty error map) by any sequence of field changes and submits, the error map holds
  no message for a field whose current value passes the test that the code makes on it:
  the property of the field reads as \<^verbatim>\<open>undefined\<close>. (Its key may still be in the map.)
\<close>

theorem no_error_on_satisfied_field:
  assumes "\<not> rule_fails name (formData (run today evs))"
  shows "read_prop (errors (run today evs)) name = Undefined"
  using assms run_errors_justified [of today evs name] by blast

text \<open>
  A session: the amount is set to \<open>abc\<close>, the submit fails and records the amount
  error, and the amount is changed to \<open>12.50\<close>.
\<close>

theorem no_error_on_satisfied_field_witness:
  "\<not> rule_fails Amount (formData (run (js ''2024-03-08'') edit_after_failed_submit)) \<and>
   read_prop (errors (run (js ''2024-03-08'') [Change Amount (js ''abc''), Submit (js ''2024-03-09'')]))
     Amount = Str (js ''Amount must be a positive number'') \<and>
   read_prop (errors (run (js ''2024-03-08'') edit_after_failed_submit)) Amount = Undefined"
proof -
  have e: "read_prop (errors (run (js ''2024-03-08'')
             [Change Amount (js ''abc''), Submit (js ''2024-03-09'')])) Amount
           = Str (js ''Amount must be a positive number'')"
    by (simp add: read_prop_def run_failed_submit_amount_error)
  have h: "\<not> rule_fails Amount (formData (run (js ''2024-03-08'') edit_after_failed_submit))"
    by (simp add: run_edit_after_failed_submit_amount parseFloat_12_50 isNaN_def)
  from no_error_on_satisfied_field [OF h] h e show ?thesis
    by simp
qed

subsection \<open>C10: a blank amount\<close>

text \<open>
  Claim C10. For every draft whose amount text is empty or consists of white space
  only, the parse is NaN and \<open>validateExpenseForm\<close> reports the amount error
  \<^verbatim>\<open>Amount must be a positive number\<close>, which is none of the three \<^verbatim>\<open>... is required\<close>
  messages: a missing amount and a malformed one get the same error.
\<close>

theorem blank_amount_is_invalid_amount:
  assumes "\<forall>c\<in>set (amount d). is_white_space c"
  shows "parseFloat (amount d) = NaN \<and>
         validation_errors (validateExpenseForm d) Amount
           = Some (Str (js ''Amount must be a positive number'')) \<and>
         js ''Amount must be a positive number'' \<notin>
           {js ''Description is required'', js ''Category is required'', js ''Date is required''}"
proof -
  from assms have "parseFloat (amount d) = NaN"
    by (rule parseFloat_white_space)
  moreover from this have "validation_errors (validateExpenseForm d) Amount
      = Some (Str (js ''Amount must be a positive number''))"
    by (simp add: validation_errors_eq isNaN_def)
  moreover have "js ''Amount must be a positive number'' \<notin>
      {js ''Description is required'', js ''Category is required'', js ''Date is required''}"
    by (simp add: js_def)
  ultimately show ?thesis
    by blast
qed

theorem blank_amount_is_invalid_amount_witness:
  "amount draft_blank_amount = [0x20, 0x20, 0x20] \<and> is_white_space 0x20 \<and>
   parseFloat (amount draft_blank_amount) = NaN \<and>
   validation_errors (validateExpenseForm draft_blank_amount) Amount
     = Some (Str (js ''Amount must be a positive number''))"
proof -
  have a: "amount draft_blank_amount = [0x20, 0x20, 0x20]"
    by (simp add: draft_blank_amount_def js_def)
  have w: "is_white_space 0x20"
    by (simp add: is_white_space_def)
  from a w have h: "\<forall>c\<in>set (amount draft_blank_amount). is_white_space c"
    by simp
  from blank_amount_is_invalid_amount [OF h] a w show ?thesis
    by blast
qed

end
